theory Spec2Isabelle
  imports Complex_Main
begin

section \<open>Errors\<close>

text \<open>
  Go errors are values. \<open>New m\<close> is \<^verbatim>\<open>errors.New(m)\<close>; \<open>Errorf f c\<close> is
  \<^verbatim>\<open>fmt.Errorf(f, ...)\<close>: it keeps the format string \<open>f\<close> as the source writes it and
  the error wrapped by \<^verbatim>\<open>%w\<close> (\<open>None\<close> when the format has no \<^verbatim>\<open>%w\<close> or the wrapped
  error is nil); the other format arguments are not recorded. The remaining constructors
  are the sentinel errors of gorm, bcrypt and golang-jwt that the code can meet.
\<close>

datatype error =
    New string
  | Errorf string "error option"
  | ErrRecordNotFound
  | DriverError string
  | ErrMismatchedHashAndPassword
  | ErrPasswordTooLong
  | ErrInvalidKeyType
  | ErrTokenMalformed
  | ErrTokenUnverifiable "error option"
  | ErrTokenSignatureInvalid
  | ErrTokenExpired
  | ErrTokenNotValidYet
  | ErrTokenInvalidClaims "error list"

text \<open>
  The error kinds of the specification, read off the message each service error carries.
  Everything else is an internal fault.
\<close>

datatype kind =
  NotFound | Forbidden | Conflict | InvalidCredentials | TokenError | HashingError | Internal

fun kind_of :: "error \<Rightarrow> kind" where
  "kind_of (New m) =
     (if m = ''user with this email already exists'' then Conflict
      else if m = ''invalid credentials'' then InvalidCredentials
      else Internal)"
| "kind_of (Errorf f c) =
     (if f = ''product not found: %w'' \<or> f = ''user not found: %w'' then NotFound
      else if f = ''you are not authorized to update this product''
              \<or> f = ''you are not authorized to delete this product'' then Forbidden
      else if f = ''invalid token: %w'' \<or> f = ''token is invalid''
              \<or> f = ''invalid token claims'' then TokenError
      else if f = ''failed to hash password: %w'' then HashingError
      else Internal)"
| "kind_of _ = Internal"


section \<open>Models (internal/models)\<close>

text \<open>
  Times are Unix times in nanoseconds, durations are nanoseconds (\<^verbatim>\<open>time.Duration\<close>).
  Identifiers are Go \<^verbatim>\<open>uint\<close>; the code does no arithmetic on them, so they are
  naturals. Prices are \<^verbatim>\<open>float64\<close>; the code only copies them and compares them
  with 0, which on the finite values a JSON request can carry agrees with the reals.
\<close>

type_synonym time = int
type_synonym duration = int

record RegisterRequest =
  Username :: string
  Email :: string
  Password :: string

record LoginRequest =
  Email :: string
  Password :: string


record AddProductRequest =
  Name :: string
  Description :: string
  Price :: real

record UpdateProductRequest =
  Name :: string
  Description :: string
  Price :: real

text \<open>
  \<^verbatim>\<open>jwt.RegisteredClaims\<close> (the fields the code sets or the library checks) and the
  custom \<^verbatim>\<open>Claims\<close> that embeds it. A date that is absent from a token is \<open>None\<close>.
\<close>

record RegisteredClaims =
  Issuer :: string
  Subject :: string
  ExpiresAt :: "time option"
  NotBefore :: "time option"
  IssuedAt :: "time option"

record Claims = RegisteredClaims +
  UserID :: string

text \<open>
  \<^verbatim>\<open>gorm.Model\<close> and the two tables' row types. \<^verbatim>\<open>DeletedAt\<close> and the
  \<^verbatim>\<open>Product.User\<close> association are left out: no statement of the repositories reads or
  writes them.
\<close>

record Model =
  ID :: nat
  CreatedAt :: time
  UpdatedAt :: time

record User = Model +
  Username :: string
  Email :: string
  Password :: string

record Product = Model +
  Name :: string
  Description :: string
  Price :: real
  UserID :: nat

definition zero_User :: User where
  "zero_User = \<lparr>ID = 0, CreatedAt = 0, UpdatedAt = 0,
     User.Username = [], User.Email = [], User.Password = []\<rparr>"

definition zero_Product :: Product where
  "zero_Product = \<lparr>ID = 0, CreatedAt = 0, UpdatedAt = 0,
     Product.Name = [], Product.Description = [], Product.Price = 0, Product.UserID = 0\<rparr>"


section \<open>The database behind gorm\<close>

text \<open>
  The store holds the two tables that \<^verbatim>\<open>AutoMigrate\<close> creates from the models, each
  with the serial sequence that assigns \<open>id\<close>. \<open>available\<close> is whether statements reach
  the server at all: when it is false every statement reports an error and changes
  nothing.
\<close>

record DB =
  available :: bool
  users :: "User list"
  users_id_seq :: nat
  products :: "Product list"
  products_id_seq :: nat

definition empty_DB :: DB where
  "empty_DB = \<lparr>available = True, users = [], users_id_seq = 0,
     products = [], products_id_seq = 0\<rparr>"

text \<open>
  What the schema guarantees of every reachable store: identifiers come from the
  sequences (so they are positive, distinct and never exceed the sequence), user names
  and emails are unique (the tag \<^verbatim>\<open>unique\<close> on both fields of \<^verbatim>\<open>User\<close>), a product's
  price satisfies the tag \<^verbatim>\<open>check:price > 0\<close> and its \<open>user_id\<close> references a user (the
  \<^verbatim>\<open>User\<close> association of \<^verbatim>\<open>Product\<close>). The empty store satisfies it and every
  operation of the services keeps it, as is proved below.
\<close>

definition db_wf :: "DB \<Rightarrow> bool" where
  "db_wf db \<longleftrightarrow>
     distinct (map ID (users db)) \<and>
     (\<forall>u \<in> set (users db). 0 < ID u \<and> ID u \<le> users_id_seq db) \<and>
     distinct (map User.Username (users db)) \<and>
     distinct (map User.Email (users db)) \<and>
     distinct (map ID (products db)) \<and>
     (\<forall>p \<in> set (products db). 0 < ID p \<and> ID p \<le> products_id_seq db \<and>
        0 < Product.Price p \<and> Product.UserID p \<in> ID ` set (users db))"

text \<open>
  \<^verbatim>\<open>db.Raw(query, ...)\<close> for a SELECT: the rows the query matches, or the driver's error.
\<close>

definition Raw_select :: "DB \<Rightarrow> 'a list \<Rightarrow> error option \<times> 'a list" where
  "Raw_select db rows =
     (if available db then (None, rows) else (Some (DriverError ''connection''), []))"

text \<open>
  \<^verbatim>\<open>.Scan(dest)\<close> on a raw query: the first row is copied into \<open>dest\<close>. When the query
  matches no row, \<open>dest\<close> keeps the value it had and \<^verbatim>\<open>result.Error\<close> stays nil:
  \<^verbatim>\<open>Scan\<close> does not report \<^verbatim>\<open>gorm.ErrRecordNotFound\<close> (only \<^verbatim>\<open>First\<close>,
  \<^verbatim>\<open>Take\<close> and \<^verbatim>\<open>Last\<close> do). This is the case \<^verbatim>\<open>GetUserByEmail\<close> guards against
  with \<^verbatim>\<open>user.ID == 0\<close>.
\<close>

definition Scan :: "'a \<Rightarrow> error option \<times> 'a list \<Rightarrow> error option \<times> 'a" where
  "Scan dest res =
     (case res of
        (Some e, _) \<Rightarrow> (Some e, dest)
      | (None, []) \<Rightarrow> (None, dest)
      | (None, r # _) \<Rightarrow> (None, r))"

text \<open>
  \<^verbatim>\<open>INSERT INTO users (...) VALUES (...) RETURNING id\<close>. The sequence advances before
  the unique constraints on \<open>username\<close> and \<open>email\<close> are checked, so a rejected insert
  consumes an identifier. Returns \<^verbatim>\<open>result.Error\<close>, the scanned \<open>newID\<close> (0 when
  nothing was returned) and the store.
\<close>

definition insert_user ::
  "DB \<Rightarrow> string \<Rightarrow> string \<Rightarrow> string \<Rightarrow> time \<Rightarrow> error option \<times> nat \<times> DB" where
  "insert_user db username email password now =
     (if \<not> available db then (Some (DriverError ''connection''), 0, db)
      else
        let newID = Suc (users_id_seq db); db1 = db\<lparr>users_id_seq := newID\<rparr> in
        if username \<in> User.Username ` set (users db) \<or> email \<in> User.Email ` set (users db)
        then (Some (DriverError ''unique_violation''), 0, db1)
        else (None, newID,
              db1\<lparr>users := users db @
                [\<lparr>ID = newID, CreatedAt = now, UpdatedAt = now, User.Username = username,
                  User.Email = email, User.Password = password\<rparr>]\<rparr>))"

text \<open>
  \<^verbatim>\<open>INSERT INTO products (...) VALUES (...) RETURNING id\<close>, under the check constraint
  on \<open>price\<close> and the foreign key on \<open>user_id\<close>.
\<close>

definition insert_product ::
  "DB \<Rightarrow> string \<Rightarrow> string \<Rightarrow> real \<Rightarrow> nat \<Rightarrow> time \<Rightarrow> error option \<times> nat \<times> DB" where
  "insert_product db name description price userID now =
     (if \<not> available db then (Some (DriverError ''connection''), 0, db)
      else
        let newID = Suc (products_id_seq db); db1 = db\<lparr>products_id_seq := newID\<rparr> in
        if \<not> 0 < price then (Some (DriverError ''check_violation''), 0, db1)
        else if userID \<notin> ID ` set (users db)
        then (Some (DriverError ''foreign_key_violation''), 0, db1)
        else (None, newID,
              db1\<lparr>products := products db @
                [\<lparr>ID = newID, CreatedAt = now, UpdatedAt = now, Product.Name = name,
                  Product.Description = description, Product.Price = price,
                  Product.UserID = userID\<rparr>]\<rparr>))"

text \<open>
  \<^verbatim>\<open>UPDATE products SET name = ?, description = ?, price = ?, updated_at = ? WHERE id = ?\<close>
  through \<^verbatim>\<open>Exec\<close>: returns \<^verbatim>\<open>result.Error\<close>, \<^verbatim>\<open>result.RowsAffected\<close> and the
  store. The check constraint is evaluated on the rows the statement would write.
\<close>

definition update_product ::
  "DB \<Rightarrow> string \<Rightarrow> string \<Rightarrow> real \<Rightarrow> time \<Rightarrow> nat \<Rightarrow> error option \<times> nat \<times> DB" where
  "update_product db name description price now pid =
     (if \<not> available db then (Some (DriverError ''connection''), 0, db)
      else
        let n = length (filter (\<lambda>p. ID p = pid) (products db)) in
        if 0 < n \<and> \<not> 0 < price then (Some (DriverError ''check_violation''), 0, db)
        else (None, n,
              db\<lparr>products := map (\<lambda>p. if ID p = pid
                    then p\<lparr>Product.Name := name, Product.Description := description,
                           Product.Price := price, UpdatedAt := now\<rparr>
                    else p) (products db)\<rparr>))"

text \<open>\<^verbatim>\<open>DELETE FROM products WHERE id = ?\<close> through \<^verbatim>\<open>Exec\<close>.\<close>

definition delete_product :: "DB \<Rightarrow> nat \<Rightarrow> error option \<times> nat \<times> DB" where
  "delete_product db pid =
     (if \<not> available db then (Some (DriverError ''connection''), 0, db)
      else (None, length (filter (\<lambda>p. ID p = pid) (products db)),
            db\<lparr>products := filter (\<lambda>p. ID p \<noteq> pid) (products db)\<rparr>))"


section \<open>Repositories (internal/repository)\<close>

text \<open>
  A repository method that fills in the struct it was given returns the struct; one
  that changes the store returns the store. \<open>now\<close> is the reading of \<^verbatim>\<open>time.Now()\<close>
  (the two readings of one statement are taken as one instant).
\<close>

definition CreateUser :: "DB \<Rightarrow> time \<Rightarrow> User \<Rightarrow> error option \<times> User \<times> DB" where
  "CreateUser db now user =
     (case insert_user db (User.Username user) (User.Email user) (User.Password user) now of
        (Some e, newID, db') \<Rightarrow> (Some (Errorf ''failed to create user: %w'' (Some e)), user, db')
      | (None, newID, db') \<Rightarrow> (None, user\<lparr>ID := newID\<rparr>, db'))"

definition GetUserByEmail :: "DB \<Rightarrow> string \<Rightarrow> error + User" where
  "GetUserByEmail db email =
     (case Scan zero_User (Raw_select db (filter (\<lambda>u. User.Email u = email) (users db))) of
        (err, user) \<Rightarrow>
          if err \<noteq> None \<or> ID user = 0 then
            (if err = Some ErrRecordNotFound
             then Inl (Errorf ''user not found with email %s'' None)
             else Inl (Errorf ''database error retrieving user by email: %w'' err))
          else Inr user)"

definition GetUserByID :: "DB \<Rightarrow> nat \<Rightarrow> error + User" where
  "GetUserByID db uid =
     (case Scan zero_User (Raw_select db (filter (\<lambda>u. ID u = uid) (users db))) of
        (err, user) \<Rightarrow>
          if err \<noteq> None then
            (if err = Some ErrRecordNotFound
             then Inl (Errorf ''user not found with ID %d'' None)
             else Inl (Errorf ''database error retrieving user by ID: %w'' err))
          else Inr user)"

definition repo_AddProduct :: "DB \<Rightarrow> time \<Rightarrow> Product \<Rightarrow> error option \<times> Product \<times> DB" where
  "repo_AddProduct db now product =
     (case insert_product db (Product.Name product) (Product.Description product)
             (Product.Price product) (Product.UserID product) now of
        (Some e, newID, db') \<Rightarrow>
          (Some (Errorf ''failed to add product: %w'' (Some e)), product, db')
      | (None, newID, db') \<Rightarrow> (None, product\<lparr>ID := newID\<rparr>, db'))"

definition GetProductByID :: "DB \<Rightarrow> nat \<Rightarrow> error + Product" where
  "GetProductByID db pid =
     (case Scan zero_Product (Raw_select db (filter (\<lambda>p. ID p = pid) (products db))) of
        (err, product) \<Rightarrow>
          if err \<noteq> None then
            (if err = Some ErrRecordNotFound
             then Inl (Errorf ''product not found with ID %d'' None)
             else Inl (Errorf ''database error retrieving product by ID: %w'' err))
          else Inr product)"

definition GetProductsByUserID :: "DB \<Rightarrow> nat \<Rightarrow> error + Product list" where
  "GetProductsByUserID db uid =
     (case Raw_select db (filter (\<lambda>p. Product.UserID p = uid) (products db)) of
        (Some e, _) \<Rightarrow> Inl (Errorf ''failed to get products by user ID: %w'' (Some e))
      | (None, rows) \<Rightarrow> Inr rows)"

definition repo_UpdateProduct :: "DB \<Rightarrow> time \<Rightarrow> Product \<Rightarrow> error option \<times> DB" where
  "repo_UpdateProduct db now product =
     (case update_product db (Product.Name product) (Product.Description product)
             (Product.Price product) now (ID product) of
        (Some e, n, db') \<Rightarrow> (Some (Errorf ''failed to update product: %w'' (Some e)), db')
      | (None, n, db') \<Rightarrow>
          if n = 0
          then (Some (Errorf ''product with ID %d not found for update (raw SQL)'' None), db')
          else (None, db'))"

definition repo_DeleteProduct :: "DB \<Rightarrow> nat \<Rightarrow> error option \<times> DB" where
  "repo_DeleteProduct db pid =
     (case delete_product db pid of
        (Some e, n, db') \<Rightarrow> (Some (Errorf ''failed to delete product: %w'' (Some e)), db')
      | (None, n, db') \<Rightarrow>
          if n = 0
          then (Some (Errorf ''product with ID %d not found for deletion (raw SQL)'' None), db')
          else (None, db'))"


section \<open>Password hashing and message authentication (external libraries)\<close>

text \<open>
  bcrypt and HMAC are libraries, not code of this program; the program is verified for
  every implementation of them. \<open>bcrypt_GenerateFromPassword entropy password\<close> is
  \<^verbatim>\<open>bcrypt.GenerateFromPassword\<close> at the default cost, with the random bytes it draws for
  the salt made an argument; \<open>bcrypt_CompareHashAndPassword hash password\<close> returns nil
  (\<open>None\<close>) on a match; \<open>hmac_sum h key input\<close> is the HMAC of the signing input under
  \<open>key\<close>. The signing input of a token is determined by its header algorithm and claims.
\<close>

datatype hmac_hash = SHA256 | SHA384 | SHA512

datatype signing_method =
    SigningMethodHMAC hmac_hash
  | SigningMethodRSA
  | SigningMethodRSAPSS
  | SigningMethodECDSA
  | SigningMethodEd25519
  | SigningMethodNone

definition SigningMethodHS256 :: signing_method where
  "SigningMethodHS256 = SigningMethodHMAC SHA256"

record crypto =
  bcrypt_GenerateFromPassword :: "string \<Rightarrow> string \<Rightarrow> error + string"
  bcrypt_CompareHashAndPassword :: "string \<Rightarrow> string \<Rightarrow> error option"
  hmac_sum :: "hmac_hash \<Rightarrow> string \<Rightarrow> signing_method \<times> Claims \<Rightarrow> string"


text \<open>
  A small instance of the libraries, for running the model on concrete inputs: the
  ``hash'' is the entropy and the password side by side, the ``HMAC'' pairs the key
  with the user identifier and the dates it signs.
\<close>

definition demo_crypto :: crypto where
  "demo_crypto = \<lparr>
     bcrypt_GenerateFromPassword = (\<lambda>entropy password. Inr (entropy @ ''$'' @ password)),
     bcrypt_CompareHashAndPassword = (\<lambda>hash password.
        if drop (length hash - length password) hash = password
           \<and> length password < length hash
        then None else Some ErrMismatchedHashAndPassword),
     hmac_sum = (\<lambda>h key input. key @ ''.'' @ Claims.UserID (snd input))\<rparr>"




section \<open>JWT manager (pkg/auth) over golang-jwt v5\<close>

text \<open>
  A token string is kept in decoded form: either it does not decode (wrong number of
  segments, bad base64 or JSON), or it carries a header algorithm (\<open>None\<close> when the
  name is not a registered signing method), the claims and the signature bytes.
\<close>

datatype token_string =
    Undecodable
  | Compact "signing_method option" Claims string

text \<open>
  \<^verbatim>\<open>jwt.Token\<close>. Its \<^verbatim>\<open>Claims\<close> field is an interface: it holds the \<^verbatim>\<open>*Claims\<close> the
  parser was given to fill, or claims of some other type.
\<close>

datatype token_claims = ClaimsPtr Claims | OtherClaims

record jwt_Token =
  Method :: signing_method
  Claims :: token_claims
  Valid :: bool

record LoginResponse =
  Token :: token_string

record JWTManager =
  secretKey :: string
  expiresInHour :: duration

text \<open>\<^verbatim>\<open>jwt.NewNumericDate\<close> truncates to \<^verbatim>\<open>jwt.TimePrecision\<close>, one second.\<close>

definition TimePrecision :: duration where
  "TimePrecision = 1000000000"

definition NewNumericDate :: "time \<Rightarrow> time option" where
  "NewNumericDate t = Some (t - t mod TimePrecision)"

text \<open>
  \<^verbatim>\<open>SigningMethod.Sign\<close> and \<^verbatim>\<open>Verify\<close> with a \<^verbatim>\<open>[]byte\<close> key: the HMAC methods
  compute the HMAC, every other method rejects the key type.
\<close>

definition Sign :: "crypto \<Rightarrow> signing_method \<Rightarrow> string \<Rightarrow> signing_method \<times> Claims \<Rightarrow> error + string" where
  "Sign cr m key input =
     (case m of SigningMethodHMAC h \<Rightarrow> Inr (hmac_sum cr h key input) | _ \<Rightarrow> Inl ErrInvalidKeyType)"

definition Verify ::
  "crypto \<Rightarrow> signing_method \<Rightarrow> string \<Rightarrow> signing_method \<times> Claims \<Rightarrow> string \<Rightarrow> error option" where
  "Verify cr m key input sig =
     (case m of
        SigningMethodHMAC h \<Rightarrow>
          if sig = hmac_sum cr h key input then None else Some ErrTokenSignatureInvalid
      | _ \<Rightarrow> Some ErrInvalidKeyType)"

definition SignedString :: "crypto \<Rightarrow> signing_method \<Rightarrow> Claims \<Rightarrow> string \<Rightarrow> error + token_string" where
  "SignedString cr m claims key =
     (case Sign cr m key (m, claims) of
        Inl e \<Rightarrow> Inl e
      | Inr sig \<Rightarrow> Inr (Compact (Some m) claims sig))"

text \<open>
  The library's claims validator with its default options, at time \<open>now\<close>: an
  expiry, when present, must be later than \<open>now\<close>; a not-before, when present, must
  not be later than \<open>now\<close>; issued-at is not checked. It returns the checks that failed.
\<close>

definition Validate :: "time \<Rightarrow> Claims \<Rightarrow> error list" where
  "Validate now claims =
     (case ExpiresAt claims of
        Some expiry \<Rightarrow> if now < expiry then [] else [ErrTokenExpired]
      | None \<Rightarrow> []) @
     (case NotBefore claims of
        Some nbf \<Rightarrow> if now < nbf then [ErrTokenNotValidYet] else []
      | None \<Rightarrow> [])"

text \<open>
  \<^verbatim>\<open>jwt.ParseWithClaims\<close>: decode, resolve the signing method, ask the key function for
  the key, verify the signature, validate the claims. Only then is the token marked
  valid.
\<close>

definition ParseWithClaims ::
  "crypto \<Rightarrow> time \<Rightarrow> token_string \<Rightarrow> (signing_method \<Rightarrow> error + string) \<Rightarrow> error + jwt_Token" where
  "ParseWithClaims cr now tokenString keyFunc =
     (case tokenString of
        Undecodable \<Rightarrow> Inl ErrTokenMalformed
      | Compact None claims sig \<Rightarrow> Inl (ErrTokenUnverifiable None)
      | Compact (Some m) claims sig \<Rightarrow>
          (case keyFunc m of
             Inl e \<Rightarrow> Inl (ErrTokenUnverifiable (Some e))
           | Inr key \<Rightarrow>
               (case Verify cr m key (m, claims) sig of
                  Some e \<Rightarrow> Inl ErrTokenSignatureInvalid
                | None \<Rightarrow>
                    (case Validate now claims of
                       [] \<Rightarrow> Inr \<lparr>Method = m, Claims = ClaimsPtr claims, Valid = True\<rparr>
                     | e # es \<Rightarrow> Inl (ErrTokenInvalidClaims (e # es))))))"

definition GenerateToken :: "crypto \<Rightarrow> JWTManager \<Rightarrow> time \<Rightarrow> string \<Rightarrow> error + token_string" where
  "GenerateToken cr jm now userID =
     (let expirationTime = now + expiresInHour jm;
          claims = \<lparr>Issuer = ''*'', Subject = userID,
                    ExpiresAt = NewNumericDate expirationTime,
                    NotBefore = NewNumericDate now,
                    IssuedAt = NewNumericDate now,
                    Claims.UserID = userID\<rparr>
      in case SignedString cr SigningMethodHS256 claims (secretKey jm) of
           Inl e \<Rightarrow> Inl (Errorf ''failed to sign token: %w'' (Some e))
         | Inr tokenString \<Rightarrow> Inr tokenString)"

text \<open>The key function \<^verbatim>\<open>ValidateToken\<close> hands to the parser.\<close>

definition keyFunc :: "JWTManager \<Rightarrow> signing_method \<Rightarrow> error + string" where
  "keyFunc jm m =
     (case m of
        SigningMethodHMAC h \<Rightarrow> Inr (secretKey jm)
      | _ \<Rightarrow> Inl (Errorf ''unexpected signing method: %v'' None))"

definition ValidateToken :: "crypto \<Rightarrow> JWTManager \<Rightarrow> time \<Rightarrow> token_string \<Rightarrow> error + Claims" where
  "ValidateToken cr jm now tokenString =
     (case ParseWithClaims cr now tokenString (keyFunc jm) of
        Inl err \<Rightarrow> Inl (Errorf ''invalid token: %w'' (Some err))
      | Inr token \<Rightarrow>
          if \<not> Valid token then Inl (Errorf ''token is invalid'' None)
          else
            (case jwt_Token.Claims token of
               ClaimsPtr claims \<Rightarrow> Inr claims
             | OtherClaims \<Rightarrow> Inl (Errorf ''invalid token claims'' None)))"


text \<open>Issuing a token at \<open>t0\<close> and validating it at \<open>now\<close>, under one manager.\<close>

definition issue_then_validate ::
  "crypto \<Rightarrow> JWTManager \<Rightarrow> time \<Rightarrow> string \<Rightarrow> time \<Rightarrow> error + Claims" where
  "issue_then_validate cr jm t0 userID now =
     (case GenerateToken cr jm t0 userID of
        Inl e \<Rightarrow> Inl e
      | Inr tok \<Rightarrow> ValidateToken cr jm now tok)"


section \<open>Services (internal/service)\<close>

text \<open>\<^verbatim>\<open>fmt.Sprintf("%d", n)\<close> for an unsigned \<open>n\<close>.\<close>

definition digit :: "nat \<Rightarrow> char" where
  "digit d = (if d = 0 then CHR ''0'' else if d = 1 then CHR ''1'' else if d = 2 then CHR ''2''
     else if d = 3 then CHR ''3'' else if d = 4 then CHR ''4'' else if d = 5 then CHR ''5''
     else if d = 6 then CHR ''6'' else if d = 7 then CHR ''7'' else if d = 8 then CHR ''8''
     else CHR ''9'')"

fun Sprintf_d :: "nat \<Rightarrow> string" where
  "Sprintf_d n = (if n < 10 then [digit n] else Sprintf_d (n div 10) @ [digit (n mod 10)])"

declare Sprintf_d.simps [simp del]

definition RegisterUser ::
  "crypto \<Rightarrow> DB \<Rightarrow> time \<Rightarrow> string \<Rightarrow> RegisterRequest \<Rightarrow> (error + User) \<times> DB" where
  "RegisterUser cr db now entropy req =
     (case GetUserByEmail db (RegisterRequest.Email req) of
        Inr existingUser \<Rightarrow> (Inl (New ''user with this email already exists''), db)
      | Inl err \<Rightarrow>
          (case bcrypt_GenerateFromPassword cr entropy (RegisterRequest.Password req) of
             Inl e \<Rightarrow> (Inl (Errorf ''failed to hash password: %w'' (Some e)), db)
           | Inr hashedPassword \<Rightarrow>
               (let user = zero_User\<lparr>User.Username := RegisterRequest.Username req,
                                      User.Email := RegisterRequest.Email req,
                                      User.Password := hashedPassword\<rparr>
                in case CreateUser db now user of
                     (Some e, user', db') \<Rightarrow>
                       (Inl (Errorf ''failed to register user: %w'' (Some e)), db')
                   | (None, user', db') \<Rightarrow> (Inr user', db'))))"

definition LoginUser ::
  "crypto \<Rightarrow> JWTManager \<Rightarrow> DB \<Rightarrow> time \<Rightarrow> LoginRequest \<Rightarrow> error + LoginResponse" where
  "LoginUser cr jm db now req =
     (case GetUserByEmail db (LoginRequest.Email req) of
        Inl err \<Rightarrow> Inl (New ''invalid credentials'')
      | Inr user \<Rightarrow>
          (case bcrypt_CompareHashAndPassword cr (User.Password user) (LoginRequest.Password req) of
             Some err \<Rightarrow> Inl (New ''invalid credentials'')
           | None \<Rightarrow>
               (case GenerateToken cr jm now (Sprintf_d (ID user)) of
                  Inl err \<Rightarrow> Inl (Errorf ''failed to generate token: %w'' (Some err))
                | Inr token \<Rightarrow> Inr \<lparr>Token = token\<rparr>)))"

definition GetUserProfile :: "DB \<Rightarrow> nat \<Rightarrow> error + User" where
  "GetUserProfile db userID =
     (case GetUserByID db userID of
        Inl err \<Rightarrow> Inl (Errorf ''user not found: %w'' (Some err))
      | Inr user \<Rightarrow> Inr user)"

definition AddProduct :: "DB \<Rightarrow> time \<Rightarrow> nat \<Rightarrow> AddProductRequest \<Rightarrow> (error + Product) \<times> DB" where
  "AddProduct db now userID req =
     (let product = zero_Product\<lparr>Product.Name := AddProductRequest.Name req,
                                  Product.Description := AddProductRequest.Description req,
                                  Product.Price := AddProductRequest.Price req,
                                  Product.UserID := userID\<rparr>
      in case repo_AddProduct db now product of
           (Some err, product', db') \<Rightarrow>
             (Inl (Errorf ''failed to add product: %w'' (Some err)), db')
         | (None, product', db') \<Rightarrow> (Inr product', db'))"

definition GetProduct :: "DB \<Rightarrow> nat \<Rightarrow> error + Product" where
  "GetProduct db productID =
     (case GetProductByID db productID of
        Inl err \<Rightarrow> Inl (Errorf ''product not found: %w'' (Some err))
      | Inr product \<Rightarrow> Inr product)"

definition GetProductsByOwner :: "DB \<Rightarrow> nat \<Rightarrow> error + Product list" where
  "GetProductsByOwner db userID =
     (case GetProductsByUserID db userID of
        Inl err \<Rightarrow> Inl (Errorf ''failed to retrieve products: %w'' (Some err))
      | Inr ps \<Rightarrow> Inr ps)"

text \<open>The partial update \<^verbatim>\<open>UpdateProduct\<close> applies to the fetched product.\<close>

definition apply_patch :: "UpdateProductRequest \<Rightarrow> Product \<Rightarrow> Product" where
  "apply_patch req product =
     (let product1 = (if UpdateProductRequest.Name req \<noteq> []
                      then product\<lparr>Product.Name := UpdateProductRequest.Name req\<rparr>
                      else product);
          product2 = (if UpdateProductRequest.Description req \<noteq> []
                      then product1\<lparr>Product.Description := UpdateProductRequest.Description req\<rparr>
                      else product1)
      in if UpdateProductRequest.Price req \<noteq> 0
         then product2\<lparr>Product.Price := UpdateProductRequest.Price req\<rparr>
         else product2)"

definition UpdateProduct ::
  "DB \<Rightarrow> time \<Rightarrow> nat \<Rightarrow> nat \<Rightarrow> UpdateProductRequest \<Rightarrow> (error + Product) \<times> DB" where
  "UpdateProduct db now productID userID req =
     (case GetProductByID db productID of
        Inl err \<Rightarrow> (Inl (Errorf ''product not found: %w'' (Some err)), db)
      | Inr product \<Rightarrow>
          if Product.UserID product \<noteq> userID
          then (Inl (Errorf ''you are not authorized to update this product'' None), db)
          else
            (let product' = apply_patch req product
             in case repo_UpdateProduct db now product' of
                  (Some err, db') \<Rightarrow>
                    (Inl (Errorf ''failed to update product: %w'' (Some err)), db')
                | (None, db') \<Rightarrow> (Inr product', db')))"

definition DeleteProduct :: "DB \<Rightarrow> nat \<Rightarrow> nat \<Rightarrow> error option \<times> DB" where
  "DeleteProduct db productID userID =
     (case GetProductByID db productID of
        Inl err \<Rightarrow> (Some (Errorf ''product not found: %w'' (Some err)), db)
      | Inr product \<Rightarrow>
          if Product.UserID product \<noteq> userID
          then (Some (Errorf ''you are not authorized to delete this product'' None), db)
          else
            (case repo_DeleteProduct db productID of
               (Some err, db') \<Rightarrow>
                 (Some (Errorf ''failed to delete product: %w'' (Some err)), db')
             | (None, db') \<Rightarrow> (None, db')))"


section \<open>Ownership across a step\<close>

text \<open>
  \<open>owners_kept db db'\<close>: every product identifier present in both stores has the same
  owning account in both.
\<close>

definition owners_kept :: "DB \<Rightarrow> DB \<Rightarrow> bool" where
  "owners_kept db db' \<longleftrightarrow>
     (\<forall>q \<in> set (products db). \<forall>q' \<in> set (products db').
        ID q' = ID q \<longrightarrow> Product.UserID q' = Product.UserID q)"


section \<open>A small store for concrete runs\<close>

text \<open>
  One registered account (its stored credential is what \<open>demo_crypto\<close> generates from
  entropy \<open>s1\<close> and password \<open>secret1\<close>), one product it owns, and a JWT manager with
  a validity of 24 hours.
\<close>

definition alice :: User where
  "alice = \<lparr>ID = 1, CreatedAt = 100, UpdatedAt = 100, User.Username = ''alice'',
     User.Email = ''alice@example.com'', User.Password = ''s1$secret1''\<rparr>"

definition widget :: Product where
  "widget = \<lparr>ID = 1, CreatedAt = 200, UpdatedAt = 200, Product.Name = ''widget'',
     Product.Description = [], Product.Price = 9.99, Product.UserID = 1\<rparr>"

definition demo_DB :: DB where
  "demo_DB = \<lparr>available = True, users = [alice], users_id_seq = 1,
     products = [widget], products_id_seq = 1\<rparr>"

definition demo_jm :: JWTManager where
  "demo_jm = \<lparr>secretKey = ''k1'', expiresInHour = 86400000000000\<rparr>"

text \<open>
  The token that manager issues to account 1 at time 0, a second manager with another
  secret, and one with a validity of half a second.
\<close>

definition demo_claims :: Claims where
  "demo_claims = \<lparr>Issuer = ''*'', Subject = ''1'', ExpiresAt = Some 86400000000000,
     NotBefore = Some 0, IssuedAt = Some 0, Claims.UserID = ''1''\<rparr>"

definition demo_token :: token_string where
  "demo_token = Compact (Some SigningMethodHS256) demo_claims
     (hmac_sum demo_crypto SHA256 ''k1'' (SigningMethodHS256, demo_claims))"

definition other_jm :: JWTManager where
  "other_jm = \<lparr>secretKey = ''k2'', expiresInHour = 86400000000000\<rparr>"

definition short_jm :: JWTManager where
  "short_jm = \<lparr>secretKey = ''k1'', expiresInHour = 500000000\<rparr>"



section \<open>Queries on the store\<close>

lemma Scan_empty:
  "Scan dest (Raw_select db []) =
     ((if available db then None else Some (DriverError ''connection'')), dest)"
  by (simp add: Scan_def Raw_select_def)

lemma filter_none: "\<forall>x \<in> set xs. \<not> P x \<Longrightarrow> filter P xs = []"
  by (induction xs) auto

lemma filter_key_unique:
  "distinct (map f xs) \<Longrightarrow> x \<in> set xs \<Longrightarrow> filter (\<lambda>y. f y = f x) xs = [x]"
proof (induction xs)
  case Nil
  then show ?case by simp
next
  case (Cons a xs)
  show ?case
  proof (cases "a = x")
    case True
    with Cons.prems have "f x \<notin> f ` set xs" by simp
    then have "\<forall>y \<in> set xs. f y \<noteq> f x" by (metis imageI)
    then have "filter (\<lambda>y. f y = f x) xs = []" by (simp add: filter_none)
    with True show ?thesis by simp
  next
    case False
    with Cons.prems have "x \<in> set xs" and "f a \<noteq> f x" by auto
    with Cons show ?thesis by simp
  qed
qed

lemma db_wf_empty_DB: "db_wf empty_DB"
  by (simp add: db_wf_def empty_DB_def)

lemma db_wf_demo_DB: "db_wf demo_DB"
  by (simp add: db_wf_def demo_DB_def alice_def widget_def)

lemma GetUserByEmail_absent:
  assumes "\<forall>u \<in> set (users db). User.Email u \<noteq> email"
  shows "GetUserByEmail db email =
          Inl (Errorf ''database error retrieving user by email: %w''
                 (if available db then None else Some (DriverError ''connection'')))"
proof -
  have "filter (\<lambda>u. User.Email u = email) (users db) = []"
    using assms by (simp add: filter_none)
  then show ?thesis
    by (simp add: GetUserByEmail_def Scan_empty zero_User_def)
qed

lemma GetUserByEmail_nonzero: "GetUserByEmail db email = Inr u \<Longrightarrow> ID u \<noteq> 0"
  by (auto simp: GetUserByEmail_def split: prod.splits if_splits)

lemma GetProductByID_stored:
  assumes "available db" and "distinct (map ID (products db))" and "p \<in> set (products db)"
  shows "GetProductByID db (ID p) = Inr p"
proof -
  have "filter (\<lambda>q. ID q = ID p) (products db) = [p]"
    using assms(2,3) by (rule filter_key_unique)
  with assms(1) show ?thesis
    by (simp add: GetProductByID_def Scan_def Raw_select_def)
qed

lemma GetProductByID_absent:
  assumes "available db" and "\<forall>p \<in> set (products db). ID p \<noteq> pid"
  shows "GetProductByID db pid = Inr zero_Product"
proof -
  have "filter (\<lambda>q. ID q = pid) (products db) = []"
    using assms(2) by (simp add: filter_none)
  with assms(1) show ?thesis
    by (simp add: GetProductByID_def Scan_empty)
qed

lemma GetProductByID_unavailable:
  "\<not> available db \<Longrightarrow> GetProductByID db pid =
     Inl (Errorf ''database error retrieving product by ID: %w''
            (Some (DriverError ''connection'')))"
  by (simp add: GetProductByID_def Scan_def Raw_select_def)


section \<open>Lookup by email of an absent account (C10)\<close>

text \<open>
  C10. For an email that no stored account has, \<open>GetUserByEmail\<close> returns an error and
  not the zero-valued record: the scan completes without error (the wrapped error is
  nil when the store is reachable) and leaves the identifier 0, which the guard
  \<^verbatim>\<open>result.Error != nil || user.ID == 0\<close> turns into a failure. So \<open>RegisterUser\<close> does
  not report a duplicate for that email, and \<open>LoginUser\<close> fails with invalid
  credentials. A record \<open>GetUserByEmail\<close> does return never has identifier 0.
\<close>

theorem absent_email_is_an_error:
  assumes "\<forall>u \<in> set (users db). User.Email u \<noteq> email"
  shows "GetUserByEmail db email =
           Inl (Errorf ''database error retrieving user by email: %w''
                  (if available db then None else Some (DriverError ''connection''))) \<and>
         (\<forall>email' u. GetUserByEmail db email' = Inr u \<longrightarrow> ID u \<noteq> 0) \<and>
         (RegisterRequest.Email req = email \<longrightarrow>
            fst (RegisterUser cr db now entropy req) \<noteq>
              Inl (New ''user with this email already exists'')) \<and>
         (LoginRequest.Email lreq = email \<longrightarrow>
            LoginUser cr jm db now lreq = Inl (New ''invalid credentials''))"
proof (intro conjI impI allI)
  show "GetUserByEmail db email =
          Inl (Errorf ''database error retrieving user by email: %w''
                 (if available db then None else Some (DriverError ''connection'')))"
    using assms by (rule GetUserByEmail_absent)
next
  fix email' u
  assume "GetUserByEmail db email' = Inr u"
  then show "ID u \<noteq> 0" by (rule GetUserByEmail_nonzero)
next
  assume "RegisterRequest.Email req = email"
  then show "fst (RegisterUser cr db now entropy req) \<noteq>
               Inl (New ''user with this email already exists'')"
    using GetUserByEmail_absent [OF assms]
    by (auto simp: RegisterUser_def Let_def split: sum.splits prod.splits option.splits)
next
  assume "LoginRequest.Email lreq = email"
  then show "LoginUser cr jm db now lreq = Inl (New ''invalid credentials'')"
    using GetUserByEmail_absent [OF assms] by (simp add: LoginUser_def)
qed

theorem absent_email_is_an_error_witness:
  "GetUserByEmail demo_DB ''bob@example.com'' =
     Inl (Errorf ''database error retrieving user by email: %w'' None) \<and>
   LoginUser demo_crypto demo_jm demo_DB 0
       \<lparr>LoginRequest.Email = ''bob@example.com'', LoginRequest.Password = ''secret1''\<rparr> =
     Inl (New ''invalid credentials'')"
proof -
  have h: "\<forall>u \<in> set (users demo_DB). User.Email u \<noteq> ''bob@example.com''"
    by (simp add: demo_DB_def alice_def)
  have a: "available demo_DB" by (simp add: demo_DB_def)
  show ?thesis
    using a absent_email_is_an_error [OF h, where cr = demo_crypto and jm = demo_jm
        and now = 0
        and lreq = "\<lparr>LoginRequest.Email = ''bob@example.com'', LoginRequest.Password = ''secret1''\<rparr>"]
    by simp
qed

section \<open>Stored rows and the store invariant\<close>

lemma GetUserByEmail_stored:
  assumes "available db" and "distinct (map User.Email (users db))"
    and "u \<in> set (users db)" and "ID u \<noteq> 0"
  shows "GetUserByEmail db (User.Email u) = Inr u"
proof -
  have "filter (\<lambda>v. User.Email v = User.Email u) (users db) = [u]"
    using assms(2,3) by (rule filter_key_unique)
  with assms(1,4) show ?thesis
    by (simp add: GetUserByEmail_def Scan_def Raw_select_def)
qed

lemma GetUserByEmail_unavailable:
  "\<not> available db \<Longrightarrow> \<exists>e. GetUserByEmail db email = Inl e"
  by (simp add: GetUserByEmail_def Scan_def Raw_select_def)

lemma db_wf_distinct: "db_wf db \<Longrightarrow> distinct (map ID (products db))"
  by (simp add: db_wf_def)

lemma filter_id_zero: "db_wf db \<Longrightarrow> filter (\<lambda>p. ID p = 0) (products db) = []"
  by (rule filter_none) (auto simp: db_wf_def)

lemma GetProductByID_cases:
  assumes "db_wf db" and "GetProductByID db pid = Inr p"
  shows "available db \<and>
         (p \<in> set (products db) \<and> ID p = pid \<or>
          p = zero_Product \<and> (\<forall>q \<in> set (products db). ID q \<noteq> pid))"
proof (cases "available db")
  case False
  with assms(2) show ?thesis by (simp add: GetProductByID_unavailable)
next
  case True
  show ?thesis
  proof (cases "\<exists>q \<in> set (products db). ID q = pid")
    case True
    then obtain q where q: "q \<in> set (products db)" "ID q = pid" by blast
    with \<open>available db\<close> assms have "p = q"
      using GetProductByID_stored [OF _ db_wf_distinct, of db q] by simp
    with q \<open>available db\<close> show ?thesis by simp
  next
    case False
    with \<open>available db\<close> assms(2) show ?thesis
      using GetProductByID_absent [of db pid] by auto
  qed
qed

lemma same_id_same_row:
  assumes "db_wf db" and "q \<in> set (products db)" and "q' \<in> set (products db)"
    and "ID q' = ID q"
  shows "q' = q"
proof -
  from assms(1) have "inj_on ID (set (products db))"
    by (simp add: db_wf_def distinct_map)
  with assms(2-4) show ?thesis by (auto dest: inj_onD)
qed

lemma AddProduct_Inr:
  assumes "AddProduct db now uid req = (Inr created, db')"
  shows "available db \<and> 0 < AddProductRequest.Price req \<and> uid \<in> ID ` set (users db) \<and>
         ID created = Suc (products_id_seq db) \<and>
         db' = db\<lparr>products_id_seq := Suc (products_id_seq db),
                  products := products db @
                    [\<lparr>ID = Suc (products_id_seq db), CreatedAt = now, UpdatedAt = now,
                      Product.Name = AddProductRequest.Name req,
                      Product.Description = AddProductRequest.Description req,
                      Product.Price = AddProductRequest.Price req, Product.UserID = uid\<rparr>]\<rparr>"
  using assms
  by (auto simp: AddProduct_def repo_AddProduct_def insert_product_def Let_def zero_Product_def
           split: if_splits prod.splits option.splits)

lemma db_wf_AddProduct:
  assumes "db_wf db"
  shows "db_wf (snd (AddProduct db now uid req))"
  using assms
  by (auto simp: AddProduct_def repo_AddProduct_def insert_product_def Let_def db_wf_def
           split: if_splits prod.splits option.splits)


section \<open>Ownership check on update and delete (C1)\<close>

text \<open>
  C1. In a reachable store, for every stored product \<open>p\<close> and every caller \<open>c\<close> other
  than its owner, \<open>UpdateProduct\<close> and \<open>DeleteProduct\<close> fail with the not-authorized
  error (kind \<open>Forbidden\<close>) and return the store as it was, so \<open>p\<close> is still what a
  lookup returns. In particular, after \<open>AddProduct\<close> by \<open>ownerA\<close> with price 9.99,
  an update of the price to 19.99 by another account fails the same way and the stored
  price is still 9.99.
\<close>

theorem non_owner_update_delete_forbidden:
  "(db_wf db \<and> available db \<and> p \<in> set (products db) \<and> c \<noteq> Product.UserID p \<longrightarrow>
      UpdateProduct db now (ID p) c patch =
        (Inl (Errorf ''you are not authorized to update this product'' None), db) \<and>
      DeleteProduct db (ID p) c =
        (Some (Errorf ''you are not authorized to delete this product'' None), db) \<and>
      GetProductByID db (ID p) = Inr p) \<and>
   kind_of (Errorf ''you are not authorized to update this product'' None) = Forbidden \<and>
   kind_of (Errorf ''you are not authorized to delete this product'' None) = Forbidden \<and>
   (db_wf db0 \<and> ownerB \<noteq> ownerA \<and>
    AddProduct db0 t0 ownerA
      \<lparr>AddProductRequest.Name = ''widget'', AddProductRequest.Description = [],
       AddProductRequest.Price = 9.99\<rparr> = (Inr created, db1) \<longrightarrow>
      UpdateProduct db1 t1 (ID created) ownerB
        \<lparr>UpdateProductRequest.Name = [], UpdateProductRequest.Description = [],
         UpdateProductRequest.Price = 19.99\<rparr> =
        (Inl (Errorf ''you are not authorized to update this product'' None), db1) \<and>
      (\<exists>stored. GetProduct db1 (ID created) = Inr stored \<and> Product.Price stored = 9.99))"
proof (intro conjI impI)
  assume h: "db_wf db \<and> available db \<and> p \<in> set (products db) \<and> c \<noteq> Product.UserID p"
  then have g: "GetProductByID db (ID p) = Inr p"
    by (simp add: GetProductByID_stored db_wf_distinct)
  from g h show "UpdateProduct db now (ID p) c patch =
      (Inl (Errorf ''you are not authorized to update this product'' None), db)"
    by (simp add: UpdateProduct_def)
  from g h show "DeleteProduct db (ID p) c =
      (Some (Errorf ''you are not authorized to delete this product'' None), db)"
    by (simp add: DeleteProduct_def)
  from g show "GetProductByID db (ID p) = Inr p" .
next
  show "kind_of (Errorf ''you are not authorized to update this product'' None) = Forbidden" by simp
  show "kind_of (Errorf ''you are not authorized to delete this product'' None) = Forbidden" by simp
next
  let ?req = "\<lparr>AddProductRequest.Name = ''widget'', AddProductRequest.Description = [],
       AddProductRequest.Price = 9.99\<rparr>"
  let ?row = "\<lparr>ID = Suc (products_id_seq db0), CreatedAt = t0, UpdatedAt = t0,
                      Product.Name = ''widget'', Product.Description = [],
                      Product.Price = 9.99, Product.UserID = ownerA\<rparr>"
  assume h: "db_wf db0 \<and> ownerB \<noteq> ownerA \<and> AddProduct db0 t0 ownerA ?req = (Inr created, db1)"
  then have add: "AddProduct db0 t0 ownerA ?req = (Inr created, db1)" by simp
  from AddProduct_Inr [OF add]
  have av: "available db0" and idc: "ID created = Suc (products_id_seq db0)"
    and db1: "db1 = db0\<lparr>products_id_seq := Suc (products_id_seq db0),
                         products := products db0 @ [?row]\<rparr>"
    by simp_all
  have wf1: "db_wf db1"
    using db_wf_AddProduct [of db0 t0 ownerA ?req] h by simp
  have mem: "?row \<in> set (products db1)" by (simp add: db1)
  have av1: "available db1" using av by (simp add: db1)
  have g: "GetProductByID db1 (ID created) = Inr ?row"
    using GetProductByID_stored [OF av1 db_wf_distinct [OF wf1] mem] idc by simp
  from g h show "UpdateProduct db1 t1 (ID created) ownerB
        \<lparr>UpdateProductRequest.Name = [], UpdateProductRequest.Description = [],
         UpdateProductRequest.Price = 19.99\<rparr> =
        (Inl (Errorf ''you are not authorized to update this product'' None), db1)"
    by (simp add: UpdateProduct_def)
  from g show "\<exists>stored. GetProduct db1 (ID created) = Inr stored \<and> Product.Price stored = 9.99"
    by (simp add: GetProduct_def)
qed

theorem non_owner_update_delete_forbidden_witness:
  "db_wf demo_DB \<and> available demo_DB \<and>
   UpdateProduct demo_DB 300 1 2
       \<lparr>UpdateProductRequest.Name = [], UpdateProductRequest.Description = [],
        UpdateProductRequest.Price = 19.99\<rparr> =
     (Inl (Errorf ''you are not authorized to update this product'' None), demo_DB) \<and>
   DeleteProduct demo_DB 1 2 =
     (Some (Errorf ''you are not authorized to delete this product'' None), demo_DB) \<and>
   (\<exists>created db1.
      AddProduct demo_DB 300 1
        \<lparr>AddProductRequest.Name = ''widget'', AddProductRequest.Description = [],
         AddProductRequest.Price = 9.99\<rparr> = (Inr created, db1) \<and>
      UpdateProduct db1 400 (ID created) 2
        \<lparr>UpdateProductRequest.Name = [], UpdateProductRequest.Description = [],
         UpdateProductRequest.Price = 19.99\<rparr> =
        (Inl (Errorf ''you are not authorized to update this product'' None), db1) \<and>
      (\<exists>stored. GetProduct db1 (ID created) = Inr stored \<and> Product.Price stored = 9.99))"
proof -
  let ?req = "\<lparr>AddProductRequest.Name = ''widget'', AddProductRequest.Description = [],
         AddProductRequest.Price = 9.99\<rparr>"
  have av: "available demo_DB" by (simp add: demo_DB_def)
  have mem: "widget \<in> set (products demo_DB)" by (simp add: demo_DB_def)
  have ne: "2 \<noteq> Product.UserID widget" by (simp add: widget_def)
  have idw: "ID widget = 1" by (simp add: widget_def)
  have "\<exists>created db1. AddProduct demo_DB 300 1 ?req = (Inr created, db1)"
    by (simp add: AddProduct_def repo_AddProduct_def insert_product_def Let_def
          demo_DB_def alice_def)
  then obtain created db1 where add: "AddProduct demo_DB 300 1 ?req = (Inr created, db1)"
    by blast
  have two: "(2::nat) \<noteq> 1" by simp
  note inst = non_owner_update_delete_forbidden [of demo_DB widget 2 300 _ demo_DB 2 1 300 created db1 400]
  from inst db_wf_demo_DB av mem ne idw add two show ?thesis
    by (auto simp del: One_nat_def)
qed


section \<open>Lookups of identifiers that match no record (C4, C5)\<close>

text \<open>
  C4. The claim is that a lookup of an identifier matching no stored record fails with
  \<open>NotFound\<close>. On the code it does not fail: the scan leaves the zero-valued record
  with a nil error, and \<open>GetProductByID\<close> and \<open>GetUserByID\<close> have no test for the
  zero identifier (\<open>GetUserByEmail\<close> has one). In the small store, which has product 1
  and account 1 only: \<open>GetProduct\<close> of product 2 and \<open>GetUserProfile\<close> of account 2
  return the zero-valued records, and after the owner deletes product 1, \<open>GetProduct\<close>
  of product 1 returns the zero-valued product.
\<close>

theorem lookup_of_absent_id_succeeds:
  "GetProduct demo_DB 2 = Inr zero_Product \<and>
   GetUserProfile demo_DB 2 = Inr zero_User \<and>
   DeleteProduct demo_DB 1 1 = (None, demo_DB\<lparr>products := []\<rparr>) \<and>
   GetProduct (snd (DeleteProduct demo_DB 1 1)) 1 = Inr zero_Product"
  by (simp add: GetProduct_def GetProductByID_def GetUserProfile_def GetUserByID_def
        DeleteProduct_def repo_DeleteProduct_def delete_product_def
        Scan_def Raw_select_def demo_DB_def alice_def widget_def)


text \<open>
  C5. The claim is that \<open>UpdateProduct\<close> and \<open>DeleteProduct\<close> of an absent product
  fail with \<open>NotFound\<close>, not \<open>Forbidden\<close>. On the code the fetch returns the
  zero-valued product, whose owner 0 differs from the caller, so both fail with the
  not-authorized error: account 1 updating or deleting the absent product 2 of the small
  store is refused as \<open>Forbidden\<close>. The store is returned unchanged.
\<close>

theorem update_delete_of_absent_id_forbidden:
  "UpdateProduct demo_DB 300 2 1
      \<lparr>UpdateProductRequest.Name = ''gadget'', UpdateProductRequest.Description = [],
       UpdateProductRequest.Price = 0\<rparr> =
     (Inl (Errorf ''you are not authorized to update this product'' None), demo_DB) \<and>
   DeleteProduct demo_DB 2 1 =
     (Some (Errorf ''you are not authorized to delete this product'' None), demo_DB) \<and>
   kind_of (Errorf ''you are not authorized to update this product'' None) = Forbidden \<and>
   kind_of (Errorf ''you are not authorized to delete this product'' None) = Forbidden"
  by (simp add: UpdateProduct_def DeleteProduct_def GetProductByID_def
        Scan_def Raw_select_def demo_DB_def alice_def widget_def zero_Product_def)


section \<open>Registration with an email already present (C6)\<close>

text \<open>
  C6. In a reachable store that answers, \<open>RegisterUser\<close> with an email that a stored
  account already has fails with the already-exists error (kind \<open>Conflict\<close>) and
  returns the store unchanged: no account is created.
\<close>

theorem register_duplicate_email_conflict:
  assumes "db_wf db" and "available db"
    and "RegisterRequest.Email req \<in> User.Email ` set (users db)"
  shows "RegisterUser cr db now entropy req =
           (Inl (New ''user with this email already exists''), db) \<and>
         kind_of (New ''user with this email already exists'') = Conflict"
proof -
  from assms(3) obtain u where u: "u \<in> set (users db)"
    and e: "User.Email u = RegisterRequest.Email req" by auto
  from assms(1) u have "distinct (map User.Email (users db))" and "ID u \<noteq> 0"
    by (auto simp: db_wf_def)
  with assms(2) u have "GetUserByEmail db (User.Email u) = Inr u"
    by (simp add: GetUserByEmail_stored)
  with e show ?thesis by (simp add: RegisterUser_def)
qed

theorem register_duplicate_email_conflict_witness:
  "db_wf demo_DB \<and> available demo_DB \<and>
   RegisterUser demo_crypto demo_DB 300 ''s2''
       \<lparr>RegisterRequest.Username = ''alice2'', RegisterRequest.Email = ''alice@example.com'',
        RegisterRequest.Password = ''secret2''\<rparr> =
     (Inl (New ''user with this email already exists''), demo_DB)"
proof -
  let ?req = "\<lparr>RegisterRequest.Username = ''alice2'',
       RegisterRequest.Email = ''alice@example.com'', RegisterRequest.Password = ''secret2''\<rparr>"
  have av: "available demo_DB" by (simp add: demo_DB_def)
  have dup: "RegisterRequest.Email ?req \<in> User.Email ` set (users demo_DB)"
    by (simp add: demo_DB_def alice_def)
  from register_duplicate_email_conflict [OF db_wf_demo_DB av dup, of demo_crypto 300 "''s2''"]
    db_wf_demo_DB av
  show ?thesis by simp
qed


section \<open>Login failures (C7)\<close>

text \<open>
  C7. \<open>LoginUser\<close> with an email that no account has, and \<open>LoginUser\<close> with the email
  of a stored account and a password that does not match its credential, return one and
  the same error value, \<open>invalid credentials\<close> (kind \<open>InvalidCredentials\<close>): the two
  results are equal.
\<close>

theorem login_failures_indistinguishable:
  assumes "\<forall>u \<in> set (users db1). User.Email u \<noteq> LoginRequest.Email r1"
    and "db_wf db2" and "u2 \<in> set (users db2)"
    and "User.Email u2 = LoginRequest.Email r2"
    and "bcrypt_CompareHashAndPassword cr (User.Password u2) (LoginRequest.Password r2) = Some e"
  shows "LoginUser cr jm db1 t1 r1 = Inl (New ''invalid credentials'') \<and>
         LoginUser cr jm db2 t2 r2 = Inl (New ''invalid credentials'') \<and>
         LoginUser cr jm db1 t1 r1 = LoginUser cr jm db2 t2 r2 \<and>
         kind_of (New ''invalid credentials'') = InvalidCredentials"
proof -
  have one: "LoginUser cr jm db1 t1 r1 = Inl (New ''invalid credentials'')"
    using GetUserByEmail_absent [OF assms(1)] by (simp add: LoginUser_def)
  have two: "LoginUser cr jm db2 t2 r2 = Inl (New ''invalid credentials'')"
  proof (cases "available db2")
    case True
    from assms(2,3) have "distinct (map User.Email (users db2))" and "ID u2 \<noteq> 0"
      by (auto simp: db_wf_def)
    with True assms(3) have "GetUserByEmail db2 (User.Email u2) = Inr u2"
      by (simp add: GetUserByEmail_stored)
    with assms(4,5) show ?thesis by (simp add: LoginUser_def)
  next
    case False
    then obtain e' where "GetUserByEmail db2 (LoginRequest.Email r2) = Inl e'"
      using GetUserByEmail_unavailable by blast
    then show ?thesis by (simp add: LoginUser_def)
  qed
  from one two show ?thesis by simp
qed

theorem login_failures_indistinguishable_witness:
  "LoginUser demo_crypto demo_jm demo_DB 500
       \<lparr>LoginRequest.Email = ''bob@example.com'', LoginRequest.Password = ''secret1''\<rparr> =
     Inl (New ''invalid credentials'') \<and>
   LoginUser demo_crypto demo_jm demo_DB 600
       \<lparr>LoginRequest.Email = ''alice@example.com'', LoginRequest.Password = ''wrong''\<rparr> =
     Inl (New ''invalid credentials'')"
proof -
  let ?r1 = "\<lparr>LoginRequest.Email = ''bob@example.com'', LoginRequest.Password = ''secret1''\<rparr>"
  let ?r2 = "\<lparr>LoginRequest.Email = ''alice@example.com'', LoginRequest.Password = ''wrong''\<rparr>"
  have absent: "\<forall>u \<in> set (users demo_DB). User.Email u \<noteq> LoginRequest.Email ?r1"
    by (simp add: demo_DB_def alice_def)
  have mem: "alice \<in> set (users demo_DB)" by (simp add: demo_DB_def)
  have em: "User.Email alice = LoginRequest.Email ?r2" by (simp add: alice_def)
  have bad: "bcrypt_CompareHashAndPassword demo_crypto (User.Password alice)
               (LoginRequest.Password ?r2) = Some ErrMismatchedHashAndPassword"
    by (simp add: demo_crypto_def alice_def)
  from login_failures_indistinguishable [OF absent db_wf_demo_DB mem em bad, of demo_jm 500 600]
  show ?thesis by simp
qed


section \<open>Creating a product with a non-positive price (C8)\<close>

text \<open>
  C8. For every owner, name, description and price \<open>\<le> 0\<close>, \<open>AddProduct\<close> fails and no
  product record is created: the insert is refused by the check on \<open>price\<close> that the
  \<open>Product\<close> model declares (or by the unreachable store), both tables are as before,
  and the only trace is the identifier the sequence handed out.
\<close>

theorem add_product_nonpositive_price_rejected:
  assumes "AddProductRequest.Price req \<le> 0"
  shows "AddProduct db now uid req =
           (Inl (Errorf ''failed to add product: %w''
                  (Some (Errorf ''failed to add product: %w''
                     (Some (DriverError (if available db then ''check_violation''
                                         else ''connection'')))))),
            if available db then db\<lparr>products_id_seq := Suc (products_id_seq db)\<rparr> else db) \<and>
         products (snd (AddProduct db now uid req)) = products db \<and>
         users (snd (AddProduct db now uid req)) = users db"
  using assms
  by (simp add: AddProduct_def repo_AddProduct_def insert_product_def Let_def zero_Product_def)

theorem add_product_nonpositive_price_rejected_witness:
  "fst (AddProduct demo_DB 300 1
          \<lparr>AddProductRequest.Name = ''free'', AddProductRequest.Description = [],
           AddProductRequest.Price = 0\<rparr>) =
     Inl (Errorf ''failed to add product: %w''
            (Some (Errorf ''failed to add product: %w''
               (Some (DriverError ''check_violation''))))) \<and>
   products (snd (AddProduct demo_DB 300 1
          \<lparr>AddProductRequest.Name = ''free'', AddProductRequest.Description = [],
           AddProductRequest.Price = 0\<rparr>)) = [widget]"
proof -
  let ?req = "\<lparr>AddProductRequest.Name = ''free'', AddProductRequest.Description = [],
           AddProductRequest.Price = 0\<rparr>"
  have le: "AddProductRequest.Price ?req \<le> 0" by simp
  have av: "available demo_DB" by (simp add: demo_DB_def)
  have ps: "products demo_DB = [widget]" by (simp add: demo_DB_def)
  from add_product_nonpositive_price_rejected [OF le, of demo_DB 300 1] av ps
  show ?thesis by simp
qed


section \<open>Partial update and ownership (C9)\<close>

lemma apply_patch_fields:
  "ID (apply_patch patch p) = ID p \<and>
   CreatedAt (apply_patch patch p) = CreatedAt p \<and>
   UpdatedAt (apply_patch patch p) = UpdatedAt p \<and>
   Product.UserID (apply_patch patch p) = Product.UserID p \<and>
   Product.Name (apply_patch patch p) =
     (if UpdateProductRequest.Name patch = [] then Product.Name p
      else UpdateProductRequest.Name patch) \<and>
   Product.Description (apply_patch patch p) =
     (if UpdateProductRequest.Description patch = [] then Product.Description p
      else UpdateProductRequest.Description patch) \<and>
   Product.Price (apply_patch patch p) =
     (if UpdateProductRequest.Price patch = 0 then Product.Price p
      else UpdateProductRequest.Price patch)"
  by (simp add: apply_patch_def Let_def)

lemma UpdateProduct_Inr:
  assumes wf: "db_wf db" and upd: "UpdateProduct db now pid uid patch = (Inr r, db')"
  shows "\<exists>p \<in> set (products db). ID p = pid \<and> Product.UserID p = uid \<and> available db \<and>
           r = apply_patch patch p \<and>
           db' = db\<lparr>products := map (\<lambda>q. if ID q = pid
                      then q\<lparr>Product.Name := Product.Name r,
                             Product.Description := Product.Description r,
                             Product.Price := Product.Price r, UpdatedAt := now\<rparr>
                      else q) (products db)\<rparr>"
proof -
  from upd obtain p where g: "GetProductByID db pid = Inr p"
    by (auto simp: UpdateProduct_def split: sum.splits)
  from upd g have own: "Product.UserID p = uid"
    by (auto simp: UpdateProduct_def split: if_splits)
  from upd g own have rep: "repo_UpdateProduct db now (apply_patch patch p) = (None, db')"
    and r: "r = apply_patch patch p"
    by (auto simp: UpdateProduct_def Let_def split: prod.splits option.splits)
  from GetProductByID_cases [OF wf g] have av: "available db" by simp
  have "p \<noteq> zero_Product"
  proof
    assume z: "p = zero_Product"
    then have "ID (apply_patch patch p) = 0" by (simp add: apply_patch_fields zero_Product_def)
    with rep av filter_id_zero [OF wf] show False
      by (simp add: repo_UpdateProduct_def update_product_def Let_def split: if_splits)
  qed
  with GetProductByID_cases [OF wf g] have mem: "p \<in> set (products db)" and idp: "ID p = pid"
    by auto
  from rep av idp have "db' = db\<lparr>products := map (\<lambda>q. if ID q = pid
                      then q\<lparr>Product.Name := Product.Name r,
                             Product.Description := Product.Description r,
                             Product.Price := Product.Price r, UpdatedAt := now\<rparr>
                      else q) (products db)\<rparr>"
    by (auto simp: repo_UpdateProduct_def update_product_def Let_def apply_patch_fields r
             split: if_splits)
  with mem idp own av r show ?thesis by blast
qed

lemma owners_kept_same:
  assumes "db_wf db" and "products db' = products db"
  shows "owners_kept db db'"
  unfolding owners_kept_def
proof (intro ballI impI)
  fix q q' assume "q \<in> set (products db)" "q' \<in> set (products db')" "ID q' = ID q"
  with assms have "q' = q"
    using same_id_same_row [of db q q'] by simp
  then show "Product.UserID q' = Product.UserID q" by simp
qed

lemma owners_kept_append:
  assumes "db_wf db" and "products db' = products db @ [n]" and "products_id_seq db < ID n"
  shows "owners_kept db db'"
  unfolding owners_kept_def
proof (intro ballI impI)
  fix q q' assume q: "q \<in> set (products db)" and q': "q' \<in> set (products db')" and e: "ID q' = ID q"
  from assms(1) q have "ID q \<le> products_id_seq db" by (simp add: db_wf_def)
  with assms(3) e have "q' \<noteq> n" by auto
  with q' assms(2) have "q' \<in> set (products db)" by simp
  with q e assms(1) have "q' = q"
    using same_id_same_row [of db q q'] by simp
  then show "Product.UserID q' = Product.UserID q" by simp
qed

lemma owners_kept_map:
  assumes "db_wf db" and "products db' = map g (products db)"
    and "\<And>q. ID (g q) = ID q \<and> Product.UserID (g q) = Product.UserID q"
  shows "owners_kept db db'"
  unfolding owners_kept_def
proof (intro ballI impI)
  fix q q' assume q: "q \<in> set (products db)" and q': "q' \<in> set (products db')" and e: "ID q' = ID q"
  from q' assms(2) obtain q0 where q0: "q0 \<in> set (products db)" "q' = g q0" by auto
  with e assms(3) have "ID q0 = ID q" by simp
  with q q0 assms(1) have "q0 = q"
    using same_id_same_row [of db q q0] by simp
  with q0 assms(3) show "Product.UserID q' = Product.UserID q" by simp
qed

lemma owners_kept_filter:
  assumes "db_wf db" and "products db' = filter P (products db)"
  shows "owners_kept db db'"
  unfolding owners_kept_def
proof (intro ballI impI)
  fix q q' assume q: "q \<in> set (products db)" and q': "q' \<in> set (products db')" and e: "ID q' = ID q"
  from q' assms(2) have "q' \<in> set (products db)" by simp
  with q e assms(1) have "q' = q"
    using same_id_same_row [of db q q'] by simp
  then show "Product.UserID q' = Product.UserID q" by simp
qed

lemma AddProduct_products:
  "products (snd (AddProduct db now uid req)) = products db \<or>
   (\<exists>n. products (snd (AddProduct db now uid req)) = products db @ [n] \<and>
        products_id_seq db < ID n)"
  by (auto simp: AddProduct_def repo_AddProduct_def insert_product_def Let_def
           split: if_splits prod.splits option.splits)

lemma UpdateProduct_products:
  "products (snd (UpdateProduct db now pid uid patch)) = products db \<or>
   (\<exists>g. products (snd (UpdateProduct db now pid uid patch)) = map g (products db) \<and>
        (\<forall>q. ID (g q) = ID q \<and> Product.UserID (g q) = Product.UserID q))"
proof (cases "GetProductByID db pid")
  case (Inl e)
  then show ?thesis by (simp add: UpdateProduct_def)
next
  case (Inr p)
  let ?r = "apply_patch patch p"
  let ?g = "\<lambda>q. if ID q = ID ?r
                 then q\<lparr>Product.Name := Product.Name ?r,
                        Product.Description := Product.Description ?r,
                        Product.Price := Product.Price ?r, UpdatedAt := now\<rparr>
                 else q"
  have g: "\<forall>q. ID (?g q) = ID q \<and> Product.UserID (?g q) = Product.UserID q" by simp
  have "products (snd (UpdateProduct db now pid uid patch)) = products db \<or>
        products (snd (UpdateProduct db now pid uid patch)) = map ?g (products db)"
    using Inr
    by (auto simp: UpdateProduct_def repo_UpdateProduct_def update_product_def Let_def
             split: if_splits prod.splits option.splits)
  with g show ?thesis by blast
qed

lemma DeleteProduct_products:
  "products (snd (DeleteProduct db pid uid)) = products db \<or>
   products (snd (DeleteProduct db pid uid)) = filter (\<lambda>p. ID p \<noteq> pid) (products db)"
  by (auto simp: DeleteProduct_def repo_DeleteProduct_def delete_product_def
           split: sum.splits if_splits prod.splits option.splits)

lemma RegisterUser_products:
  "products (snd (RegisterUser cr db now entropy req)) = products db"
  by (auto simp: RegisterUser_def CreateUser_def insert_user_def Let_def
           split: sum.splits if_splits prod.splits option.splits)

lemma owners_kept_AddProduct: "db_wf db \<Longrightarrow> owners_kept db (snd (AddProduct db now uid req))"
  using AddProduct_products [of db now uid req]
  by (auto intro: owners_kept_same owners_kept_append)

lemma owners_kept_UpdateProduct:
  "db_wf db \<Longrightarrow> owners_kept db (snd (UpdateProduct db now pid uid patch))"
  using UpdateProduct_products [of db now pid uid patch]
  by (auto intro: owners_kept_same owners_kept_map)

lemma owners_kept_DeleteProduct:
  "db_wf db \<Longrightarrow> owners_kept db (snd (DeleteProduct db pid uid))"
  using DeleteProduct_products [of db pid uid]
  by (auto intro: owners_kept_same owners_kept_filter)


text \<open>
  C9. In a reachable store, a successful \<open>UpdateProduct\<close> was made by the owner of a
  stored product, and the row stored afterwards has, for each of name, description and
  price, the patch value when that is non-empty (non-zero) and the prior stored value
  otherwise; identifier, owner and creation time are as before, every other product and
  every account is untouched. No operation changes the owner of a product: across
  \<open>UpdateProduct\<close>, \<open>AddProduct\<close>, \<open>DeleteProduct\<close> and \<open>RegisterUser\<close>, whatever
  their arguments and outcome, a product identifier present before and after has the
  same owning account.
\<close>

theorem update_changes_only_patched_fields:
  assumes wf: "db_wf db" and upd: "UpdateProduct db now pid uid patch = (Inr r, db')"
  shows "(\<exists>p p'. GetProductByID db pid = Inr p \<and> GetProductByID db' pid = Inr p' \<and>
            Product.UserID p = uid \<and>
            Product.Name p' = (if UpdateProductRequest.Name patch = [] then Product.Name p
                               else UpdateProductRequest.Name patch) \<and>
            Product.Description p' =
              (if UpdateProductRequest.Description patch = [] then Product.Description p
               else UpdateProductRequest.Description patch) \<and>
            Product.Price p' = (if UpdateProductRequest.Price patch = 0 then Product.Price p
                                else UpdateProductRequest.Price patch) \<and>
            Product.UserID p' = Product.UserID p \<and> ID p' = ID p \<and>
            CreatedAt p' = CreatedAt p \<and> UpdatedAt p' = now) \<and>
         (\<forall>q \<in> set (products db). ID q \<noteq> pid \<longrightarrow> GetProductByID db' (ID q) = Inr q) \<and>
         map ID (products db') = map ID (products db) \<and>
         users db' = users db \<and>
         owners_kept db (snd (UpdateProduct db t1 pid1 uid1 patch1)) \<and>
         owners_kept db (snd (AddProduct db t2 uid2 req2)) \<and>
         owners_kept db (snd (DeleteProduct db pid3 uid3)) \<and>
         products (snd (RegisterUser cr db t4 entropy req4)) = products db"
proof -
  from UpdateProduct_Inr [OF wf upd] obtain p where
    mem: "p \<in> set (products db)" and idp: "ID p = pid" and own: "Product.UserID p = uid"
    and av: "available db" and r: "r = apply_patch patch p"
    and db': "db' = db\<lparr>products := map (\<lambda>q. if ID q = pid
                      then q\<lparr>Product.Name := Product.Name r,
                             Product.Description := Product.Description r,
                             Product.Price := Product.Price r, UpdatedAt := now\<rparr>
                      else q) (products db)\<rparr>"
    by blast
  let ?g = "\<lambda>q. if ID q = pid
                      then q\<lparr>Product.Name := Product.Name r,
                             Product.Description := Product.Description r,
                             Product.Price := Product.Price r, UpdatedAt := now\<rparr>
                      else q"
  have ids: "map ID (products db') = map ID (products db)"
    by (simp add: db' comp_def)
  have dist': "distinct (map ID (products db'))"
    using db_wf_distinct [OF wf] by (simp add: ids)
  have av': "available db'" using av by (simp add: db')
  have before: "GetProductByID db pid = Inr p"
    using GetProductByID_stored [OF av db_wf_distinct [OF wf] mem] idp by simp
  have mem': "?g p \<in> set (products db')" using mem by (simp add: db')
  have after: "GetProductByID db' pid = Inr (?g p)"
    using GetProductByID_stored [OF av' dist' mem'] idp by simp
  have others: "\<forall>q \<in> set (products db). ID q \<noteq> pid \<longrightarrow> GetProductByID db' (ID q) = Inr q"
  proof (intro ballI impI)
    fix q assume q: "q \<in> set (products db)" and ne: "ID q \<noteq> pid"
    from q have "?g q \<in> ?g ` set (products db)" by (rule imageI)
    with ne have "q \<in> set (products db')" by (simp add: db')
    from GetProductByID_stored [OF av' dist' this] show "GetProductByID db' (ID q) = Inr q" .
  qed
  have fields: "Product.UserID p = uid \<and>
            Product.Name (?g p) = (if UpdateProductRequest.Name patch = [] then Product.Name p
                               else UpdateProductRequest.Name patch) \<and>
            Product.Description (?g p) =
              (if UpdateProductRequest.Description patch = [] then Product.Description p
               else UpdateProductRequest.Description patch) \<and>
            Product.Price (?g p) = (if UpdateProductRequest.Price patch = 0 then Product.Price p
                                else UpdateProductRequest.Price patch) \<and>
            Product.UserID (?g p) = Product.UserID p \<and> ID (?g p) = ID p \<and>
            CreatedAt (?g p) = CreatedAt p \<and> UpdatedAt (?g p) = now"
    using own idp by (simp add: r apply_patch_fields)
  from before after fields have first: "\<exists>p p'. GetProductByID db pid = Inr p \<and> GetProductByID db' pid = Inr p' \<and>
            Product.UserID p = uid \<and>
            Product.Name p' = (if UpdateProductRequest.Name patch = [] then Product.Name p
                               else UpdateProductRequest.Name patch) \<and>
            Product.Description p' =
              (if UpdateProductRequest.Description patch = [] then Product.Description p
               else UpdateProductRequest.Description patch) \<and>
            Product.Price p' = (if UpdateProductRequest.Price patch = 0 then Product.Price p
                                else UpdateProductRequest.Price patch) \<and>
            Product.UserID p' = Product.UserID p \<and> ID p' = ID p \<and>
            CreatedAt p' = CreatedAt p \<and> UpdatedAt p' = now"
    by blast
  have us: "users db' = users db" by (simp add: db')
  from first others ids us owners_kept_UpdateProduct [OF wf] owners_kept_AddProduct [OF wf]
    owners_kept_DeleteProduct [OF wf] RegisterUser_products
  show ?thesis by blast
qed

theorem update_changes_only_patched_fields_witness:
  "db_wf demo_DB \<and>
   fst (UpdateProduct demo_DB 300 1 1
          \<lparr>UpdateProductRequest.Name = [], UpdateProductRequest.Description = [],
           UpdateProductRequest.Price = 19.99\<rparr>) = Inr (widget\<lparr>Product.Price := 19.99\<rparr>) \<and>
   (\<exists>p'. GetProductByID (snd (UpdateProduct demo_DB 300 1 1
          \<lparr>UpdateProductRequest.Name = [], UpdateProductRequest.Description = [],
           UpdateProductRequest.Price = 19.99\<rparr>)) 1 = Inr p' \<and>
      Product.Name p' = ''widget'' \<and> Product.Description p' = [] \<and>
      Product.Price p' = 19.99 \<and> Product.UserID p' = 1 \<and> UpdatedAt p' = 300)"
proof -
  let ?patch = "\<lparr>UpdateProductRequest.Name = [], UpdateProductRequest.Description = [],
           UpdateProductRequest.Price = 19.99\<rparr>"
  have "\<exists>db'. UpdateProduct demo_DB 300 1 1 ?patch = (Inr (widget\<lparr>Product.Price := 19.99\<rparr>), db')"
    by (simp add: UpdateProduct_def GetProductByID_def Scan_def Raw_select_def
          repo_UpdateProduct_def update_product_def apply_patch_def Let_def
          demo_DB_def widget_def)
  then obtain db' where
    upd: "UpdateProduct demo_DB 300 1 1 ?patch = (Inr (widget\<lparr>Product.Price := 19.99\<rparr>), db')"
    by blast
  have before: "GetProductByID demo_DB 1 = Inr widget"
    by (simp add: GetProductByID_def Scan_def Raw_select_def demo_DB_def widget_def)
  from update_changes_only_patched_fields [OF db_wf_demo_DB upd, THEN conjunct1] before
  have "\<exists>p'. GetProductByID db' 1 = Inr p' \<and>
      Product.Name p' = ''widget'' \<and> Product.Description p' = [] \<and>
      Product.Price p' = 19.99 \<and> Product.UserID p' = 1 \<and> UpdatedAt p' = 300"
    by (auto simp: widget_def)
  with upd db_wf_demo_DB show ?thesis by simp
qed

section \<open>Every operation keeps the store invariant\<close>

lemma db_wf_RegisterUser:
  assumes "db_wf db"
  shows "db_wf (snd (RegisterUser cr db now entropy req))"
  using assms
  by (auto simp: RegisterUser_def CreateUser_def insert_user_def Let_def db_wf_def zero_User_def
           split: sum.splits if_splits prod.splits option.splits)

lemma db_wf_DeleteProduct:
  assumes "db_wf db"
  shows "db_wf (snd (DeleteProduct db pid uid))"
  using assms
  by (auto simp: DeleteProduct_def repo_DeleteProduct_def delete_product_def db_wf_def
                 distinct_map_filter
           split: sum.splits if_splits prod.splits option.splits)

lemma db_wf_update_product:
  assumes "db_wf db"
  shows "db_wf (snd (snd (update_product db name description price now pid)))"
  using assms
  by (auto simp: update_product_def Let_def db_wf_def comp_def if_distrib [of ID] filter_empty_conv
           cong: if_cong split: if_splits)

lemma db_wf_repo_UpdateProduct:
  assumes "db_wf db"
  shows "db_wf (snd (repo_UpdateProduct db now product))"
proof -
  obtain err n b where u: "update_product db (Product.Name product)
      (Product.Description product) (Product.Price product) now (ID product) = (err, n, b)"
    by (metis prod_cases3)
  from db_wf_update_product [OF assms, of "Product.Name product" "Product.Description product"
      "Product.Price product" now "ID product"] u
  have "db_wf b" by simp
  with u show ?thesis
    by (simp add: repo_UpdateProduct_def split: option.splits)
qed

lemma db_wf_UpdateProduct:
  assumes "db_wf db"
  shows "db_wf (snd (UpdateProduct db now pid uid patch))"
proof (cases "GetProductByID db pid")
  case (Inl e)
  with assms show ?thesis by (simp add: UpdateProduct_def)
next
  case (Inr p)
  from db_wf_repo_UpdateProduct [OF assms, of now "apply_patch patch p"] Inr assms
  show ?thesis
    by (auto simp: UpdateProduct_def Let_def split: prod.splits option.splits)
qed


section \<open>Token validation (C3)\<close>

lemma ValidateToken_Inr_iff:
  "ValidateToken cr jm now tok = Inr claims \<longleftrightarrow>
     (\<exists>h sig. tok = Compact (Some (SigningMethodHMAC h)) claims sig \<and>
        sig = hmac_sum cr h (secretKey jm) (SigningMethodHMAC h, claims) \<and>
        (case NotBefore claims of None \<Rightarrow> True | Some nbf \<Rightarrow> nbf \<le> now) \<and>
        (case ExpiresAt claims of None \<Rightarrow> True | Some expiry \<Rightarrow> now < expiry))"
  by (auto simp: ValidateToken_def ParseWithClaims_def keyFunc_def Verify_def Validate_def
           split: token_string.splits option.splits signing_method.splits sum.splits
                  list.splits if_splits token_claims.splits)

lemma ValidateToken_Inl_kind:
  "ValidateToken cr jm now tok = Inl e \<Longrightarrow> kind_of e = TokenError"
  by (auto simp: ValidateToken_def split: sum.splits if_splits token_claims.splits)

lemma GenerateToken_eq:
  "GenerateToken cr jm t0 uid =
     Inr (Compact (Some SigningMethodHS256)
            \<lparr>Issuer = ''*'', Subject = uid,
             ExpiresAt = Some (t0 + expiresInHour jm - (t0 + expiresInHour jm) mod TimePrecision),
             NotBefore = Some (t0 - t0 mod TimePrecision),
             IssuedAt = Some (t0 - t0 mod TimePrecision),
             Claims.UserID = uid\<rparr>
            (hmac_sum cr SHA256 (secretKey jm)
               (SigningMethodHS256,
                \<lparr>Issuer = ''*'', Subject = uid,
                 ExpiresAt = Some (t0 + expiresInHour jm - (t0 + expiresInHour jm) mod TimePrecision),
                 NotBefore = Some (t0 - t0 mod TimePrecision),
                 IssuedAt = Some (t0 - t0 mod TimePrecision),
                 Claims.UserID = uid\<rparr>)))"
  by (simp add: GenerateToken_def SignedString_def Sign_def SigningMethodHS256_def
        NewNumericDate_def Let_def)

lemma issued_token_valid_iff:
  assumes "GenerateToken cr jm t0 uid = Inr tok"
  shows "(\<exists>claims. ValidateToken cr jm now tok = Inr claims) \<longleftrightarrow>
           t0 - t0 mod TimePrecision \<le> now \<and>
           now < t0 + expiresInHour jm - (t0 + expiresInHour jm) mod TimePrecision"
    and "ValidateToken cr jm now tok = Inr claims \<Longrightarrow>
           Claims.UserID claims = uid \<and> Subject claims = uid"
  using assms unfolding GenerateToken_eq
  by (auto simp: ValidateToken_Inr_iff SigningMethodHS256_def)

lemma trunc_le: "t - t mod TimePrecision \<le> (t::int)"
  by (simp add: TimePrecision_def)

lemma trunc_mono:
  assumes "TimePrecision \<le> d"
  shows "(t::int) < t + d - (t + d) mod TimePrecision"
proof -
  have "(t + d) mod TimePrecision < TimePrecision"
    by (simp add: TimePrecision_def)
  with assms show ?thesis by linarith
qed

lemma issue_then_validate_iff:
  "(\<exists>claims. issue_then_validate cr jm t0 uid now = Inr claims) \<longleftrightarrow>
     t0 - t0 mod TimePrecision \<le> now \<and>
     now < t0 + expiresInHour jm - (t0 + expiresInHour jm) mod TimePrecision"
proof -
  obtain tok where gen: "GenerateToken cr jm t0 uid = Inr tok"
    using GenerateToken_eq by blast
  then have "issue_then_validate cr jm t0 uid now = ValidateToken cr jm now tok"
    by (simp add: issue_then_validate_def)
  with issued_token_valid_iff(1) [OF gen, of now] show ?thesis by simp
qed

lemma issue_then_validate_subject:
  assumes "issue_then_validate cr jm t0 uid now = Inr claims"
  shows "Claims.UserID claims = uid"
proof -
  obtain tok where gen: "GenerateToken cr jm t0 uid = Inr tok"
    using GenerateToken_eq by blast
  with assms have "ValidateToken cr jm now tok = Inr claims"
    by (simp add: issue_then_validate_def)
  from issued_token_valid_iff(2) [OF gen this] show ?thesis by simp
qed

lemma issue_then_validate_Inl:
  assumes "issue_then_validate cr jm t0 uid now = Inl e"
  shows "kind_of e = TokenError"
proof -
  obtain tok where gen: "GenerateToken cr jm t0 uid = Inr tok"
    using GenerateToken_eq by blast
  with assms have "ValidateToken cr jm now tok = Inl e"
    by (simp add: issue_then_validate_def)
  then show ?thesis by (rule ValidateToken_Inl_kind)
qed

lemma not_Inr_is_Inl: "(\<forall>c. x \<noteq> Inr c) \<Longrightarrow> \<exists>e. x = Inl e"
  by (cases x) auto


text \<open>
  C3, as the code has it. \<open>ValidateToken\<close> returns the claims a token carries exactly
  when the token decodes, its header names an HMAC method, its signature is the HMAC of
  its signing input under the configured secret, its not-before (when present) is not
  after \<open>now\<close> and its expiry (when present) is after \<open>now\<close>: the window is
  \<open>notBefore \<le> now < expiresAt\<close>, closed below and open above. Every failure is an
  \<open>invalid token\<close> error (kind \<open>TokenError\<close>), in particular for an undecodable
  string, for any method that is not HMAC, and for a signature that is not the one the
  configured secret gives. A token issued at \<open>t0\<close> with validity \<open>D\<close> carries both
  dates truncated to the second; it validates exactly from the second of issue until
  before the second of \<open>t0 + D\<close>, and then returns the subject it was issued for. So it
  is valid at the instant of issue whenever \<open>D\<close> is at least one second, invalid at
  every time from \<open>t0 + D\<close> on, and invalid at the expiry instant itself.
\<close>

theorem ValidateToken_accepts_exactly:
  "(ValidateToken cr jm now tok = Inr claims \<longleftrightarrow>
      (\<exists>h sig. tok = Compact (Some (SigningMethodHMAC h)) claims sig \<and>
         sig = hmac_sum cr h (secretKey jm) (SigningMethodHMAC h, claims) \<and>
         (case NotBefore claims of None \<Rightarrow> True | Some nbf \<Rightarrow> nbf \<le> now) \<and>
         (case ExpiresAt claims of None \<Rightarrow> True | Some expiry \<Rightarrow> now < expiry))) \<and>
   (\<forall>e. ValidateToken cr jm now tok = Inl e \<longrightarrow> kind_of e = TokenError) \<and>
   (\<exists>e. ValidateToken cr jm now Undecodable = Inl e) \<and>
   ((\<forall>h. m \<noteq> SigningMethodHMAC h) \<longrightarrow>
      (\<exists>e. ValidateToken cr jm now (Compact (Some m) c s) = Inl e)) \<and>
   (s \<noteq> hmac_sum cr h' (secretKey jm) (SigningMethodHMAC h', c) \<longrightarrow>
      (\<exists>e. ValidateToken cr jm now (Compact (Some (SigningMethodHMAC h')) c s) = Inl e)) \<and>
   ((\<exists>c. issue_then_validate cr jm issued uid now = Inr c) \<longleftrightarrow>
      issued - issued mod TimePrecision \<le> now \<and>
      now < issued + expiresInHour jm - (issued + expiresInHour jm) mod TimePrecision) \<and>
   (\<forall>c. issue_then_validate cr jm issued uid now = Inr c \<longrightarrow> Claims.UserID c = uid) \<and>
   (\<forall>e. issue_then_validate cr jm issued uid now = Inl e \<longrightarrow> kind_of e = TokenError) \<and>
   (TimePrecision \<le> expiresInHour jm \<longrightarrow>
      (\<exists>c. issue_then_validate cr jm issued uid issued = Inr c \<and> Claims.UserID c = uid)) \<and>
   (issued + expiresInHour jm \<le> now \<longrightarrow> (\<exists>e. issue_then_validate cr jm issued uid now = Inl e)) \<and>
   (\<exists>e. issue_then_validate cr jm issued uid
           (issued + expiresInHour jm - (issued + expiresInHour jm) mod TimePrecision) = Inl e)"
proof (intro conjI allI impI)
  show "ValidateToken cr jm now tok = Inr claims \<longleftrightarrow>
      (\<exists>h sig. tok = Compact (Some (SigningMethodHMAC h)) claims sig \<and>
         sig = hmac_sum cr h (secretKey jm) (SigningMethodHMAC h, claims) \<and>
         (case NotBefore claims of None \<Rightarrow> True | Some nbf \<Rightarrow> nbf \<le> now) \<and>
         (case ExpiresAt claims of None \<Rightarrow> True | Some expiry \<Rightarrow> now < expiry))"
    by (rule ValidateToken_Inr_iff)
next
  fix e assume "ValidateToken cr jm now tok = Inl e"
  then show "kind_of e = TokenError" by (rule ValidateToken_Inl_kind)
next
  have "\<forall>x. ValidateToken cr jm now Undecodable \<noteq> Inr x"
    by (simp add: ValidateToken_Inr_iff)
  then show "\<exists>e. ValidateToken cr jm now Undecodable = Inl e" by (rule not_Inr_is_Inl)
next
  assume "\<forall>h. m \<noteq> SigningMethodHMAC h"
  then have "\<forall>x. ValidateToken cr jm now (Compact (Some m) c s) \<noteq> Inr x"
    by (simp add: ValidateToken_Inr_iff)
  then show "\<exists>e. ValidateToken cr jm now (Compact (Some m) c s) = Inl e"
    by (rule not_Inr_is_Inl)
next
  assume "s \<noteq> hmac_sum cr h' (secretKey jm) (SigningMethodHMAC h', c)"
  then have "\<forall>x. ValidateToken cr jm now (Compact (Some (SigningMethodHMAC h')) c s) \<noteq> Inr x"
    by (simp add: ValidateToken_Inr_iff)
  then show "\<exists>e. ValidateToken cr jm now (Compact (Some (SigningMethodHMAC h')) c s) = Inl e"
    by (rule not_Inr_is_Inl)
next
  show "(\<exists>c. issue_then_validate cr jm issued uid now = Inr c) \<longleftrightarrow>
      issued - issued mod TimePrecision \<le> now \<and>
      now < issued + expiresInHour jm - (issued + expiresInHour jm) mod TimePrecision"
    by (rule issue_then_validate_iff)
next
  fix c assume "issue_then_validate cr jm issued uid now = Inr c"
  then show "Claims.UserID c = uid" by (rule issue_then_validate_subject)
next
  fix e assume "issue_then_validate cr jm issued uid now = Inl e"
  then show "kind_of e = TokenError" by (rule issue_then_validate_Inl)
next
  assume d: "TimePrecision \<le> expiresInHour jm"
  have "issued - issued mod TimePrecision \<le> issued" by (rule trunc_le)
  moreover have "issued < issued + expiresInHour jm - (issued + expiresInHour jm) mod TimePrecision"
    using d by (rule trunc_mono)
  ultimately obtain c where c: "issue_then_validate cr jm issued uid issued = Inr c"
    using issue_then_validate_iff [of cr jm issued uid issued] by blast
  with issue_then_validate_subject [OF c]
  show "\<exists>c. issue_then_validate cr jm issued uid issued = Inr c \<and> Claims.UserID c = uid" by blast
next
  assume late: "issued + expiresInHour jm \<le> now"
  have "issued + expiresInHour jm - (issued + expiresInHour jm) mod TimePrecision \<le> issued + expiresInHour jm"
    by (rule trunc_le)
  with late have "\<not> now < issued + expiresInHour jm - (issued + expiresInHour jm) mod TimePrecision"
    by linarith
  then have "\<forall>c. issue_then_validate cr jm issued uid now \<noteq> Inr c"
    using issue_then_validate_iff [of cr jm issued uid now] by blast
  then show "\<exists>e. issue_then_validate cr jm issued uid now = Inl e" by (rule not_Inr_is_Inl)
next
  let ?x = "issued + expiresInHour jm - (issued + expiresInHour jm) mod TimePrecision"
  have "\<not> ?x < ?x" by simp
  then have "\<forall>c. issue_then_validate cr jm issued uid ?x \<noteq> Inr c"
    using issue_then_validate_iff [of cr jm issued uid ?x] by blast
  then show "\<exists>e. issue_then_validate cr jm issued uid ?x = Inl e" by (rule not_Inr_is_Inl)
qed

theorem ValidateToken_window_counterexample:
  "GenerateToken demo_crypto demo_jm 0 ''1'' = Inr demo_token \<and>
   NotBefore demo_claims = Some 0 \<and> ExpiresAt demo_claims = Some 86400000000000 \<and>
   ValidateToken demo_crypto demo_jm 86400000000000 demo_token =
     Inl (Errorf ''invalid token: %w'' (Some (ErrTokenInvalidClaims [ErrTokenExpired]))) \<and>
   issue_then_validate demo_crypto short_jm 1200000000 ''1'' 1200000000 =
     Inl (Errorf ''invalid token: %w'' (Some (ErrTokenInvalidClaims [ErrTokenExpired])))"
  by (simp add: GenerateToken_eq demo_token_def demo_claims_def demo_jm_def short_jm_def
        issue_then_validate_def TimePrecision_def SigningMethodHS256_def
        ValidateToken_def ParseWithClaims_def keyFunc_def Verify_def Validate_def)


theorem ValidateToken_accepts_exactly_witness:
  "ValidateToken demo_crypto demo_jm 86399999999999 demo_token = Inr demo_claims \<and>
   Claims.UserID demo_claims = ''1'' \<and>
   (\<exists>e. ValidateToken demo_crypto demo_jm 1
           (Compact (Some (SigningMethodHMAC SHA256)) demo_claims
              (hmac_sum demo_crypto SHA256 (secretKey other_jm)
                 (SigningMethodHMAC SHA256, demo_claims))) = Inl e) \<and>
   (\<exists>e. ValidateToken demo_crypto demo_jm 1
           (Compact (Some SigningMethodRSA) demo_claims ''x'') = Inl e) \<and>
   (\<exists>c. issue_then_validate demo_crypto demo_jm 1700000000123456789 ''1''
           1700000000123456789 = Inr c \<and> Claims.UserID c = ''1'') \<and>
   (\<exists>e. issue_then_validate demo_crypto demo_jm 1700000000123456789 ''1''
           1700086400123456789 = Inl e)"
proof -
  let ?s = "hmac_sum demo_crypto SHA256 (secretKey other_jm)
              (SigningMethodHMAC SHA256, demo_claims)"
  note early = ValidateToken_accepts_exactly [where cr = demo_crypto and jm = demo_jm
      and now = 86399999999999 and tok = demo_token and claims = demo_claims
      and issued = 1700000000123456789 and uid = "''1''"]
  note forged = ValidateToken_accepts_exactly [where cr = demo_crypto and jm = demo_jm
      and now = 1 and m = SigningMethodRSA and c = demo_claims and s = ?s and h' = SHA256]
  note rsa = ValidateToken_accepts_exactly [where cr = demo_crypto and jm = demo_jm
      and now = 1 and m = SigningMethodRSA and c = demo_claims and s = "''x''"]
  note late = ValidateToken_accepts_exactly [where cr = demo_crypto and jm = demo_jm
      and now = 1700086400123456789 and issued = 1700000000123456789 and uid = "''1''"]
  have a: "ValidateToken demo_crypto demo_jm 86399999999999 demo_token = Inr demo_claims"
    using early by (simp add: demo_token_def demo_claims_def demo_jm_def SigningMethodHS256_def)
  have b: "Claims.UserID demo_claims = ''1''" by (simp add: demo_claims_def)
  have "?s \<noteq> hmac_sum demo_crypto SHA256 (secretKey demo_jm)
                 (SigningMethodHMAC SHA256, demo_claims)"
    by (simp add: demo_crypto_def demo_jm_def other_jm_def)
  with forged have c: "\<exists>e. ValidateToken demo_crypto demo_jm 1
           (Compact (Some (SigningMethodHMAC SHA256)) demo_claims ?s) = Inl e"
    by blast
  have "\<forall>h. SigningMethodRSA \<noteq> SigningMethodHMAC h" by simp
  with rsa have d: "\<exists>e. ValidateToken demo_crypto demo_jm 1
           (Compact (Some SigningMethodRSA) demo_claims ''x'') = Inl e"
    by blast
  have "TimePrecision \<le> expiresInHour demo_jm" by (simp add: TimePrecision_def demo_jm_def)
  with early have e: "\<exists>c. issue_then_validate demo_crypto demo_jm 1700000000123456789 ''1''
           1700000000123456789 = Inr c \<and> Claims.UserID c = ''1''"
    by blast
  have "1700000000123456789 + expiresInHour demo_jm \<le> 1700086400123456789"
    by (simp add: demo_jm_def)
  with late have f: "\<exists>e. issue_then_validate demo_crypto demo_jm 1700000000123456789 ''1''
           1700086400123456789 = Inl e"
    by blast
  from a b c d e f show ?thesis by blast
qed


section \<open>Register, login, validate (C2)\<close>









end
